theory Spec2Isabelle
  imports Main "HOL-Library.Word" "HOL-Library.Product_Lexorder"
begin

section \<open>The favicon generator \<^verbatim>\<open>bck/create_favicon.py\<close>\<close>

text \<open>
  The script draws a 16x16 icon with Pillow, resizes it and writes one ICO and two PNG
  files. Pillow itself is not part of the repository. Its pixel-level algorithms (which
  pixels a shape touches, the resampling kernel, the byte layout of the containers) are
  parameters of the model, collected in the record \<open>pillow\<close>; what the script does with
  them is translated from the source.
\<close>

subsection \<open>Images\<close>

text \<open>An RGBA colour is the 4-tuple the source writes: \<^verbatim>\<open>(45, 55, 72, 255)\<close>.\<close>

type_synonym colour = "int \<times> int \<times> int \<times> int"

type_synonym bytes = "8 word list"

definition alpha :: "colour \<Rightarrow> int" where
  "alpha c = (case c of (r, g, b, a) \<Rightarrow> a)"

text \<open>
  A Pillow image: its mode, its size (width, height) and the pixels in row-major order,
  so that the pixel at column \<open>x\<close> of row \<open>y\<close> is at index \<open>y * width + x\<close>.
\<close>

record image =
  mode :: string
  size_wh :: "nat \<times> nat"
  pixels :: "colour list"

datatype resampling = NEAREST | BOX | BILINEAR | HAMMING | BICUBIC | LANCZOS

text \<open>
  The argument lists of the four \<^verbatim>\<open>ImageDraw\<close> methods the script calls:
  \<^verbatim>\<open>rectangle([x0, y0, x1, y1])\<close>, \<^verbatim>\<open>ellipse([x0, y0, x1, y1])\<close>,
  \<^verbatim>\<open>line([(x0, y0), (x1, y1)])\<close> and \<^verbatim>\<open>arc([x0, y0, x1, y1], start, end)\<close>.
\<close>

datatype shape =
    Rectangle "int list"
  | Ellipse "int list"
  | Line "(int \<times> int) list"
  | Arc "int list" int int

datatype kind = KRectangle | KEllipse | KLine | KArc

fun kind_of :: "shape \<Rightarrow> kind" where
  "kind_of (Rectangle xy) = KRectangle"
| "kind_of (Ellipse xy) = KEllipse"
| "kind_of (Line xy) = KLine"
| "kind_of (Arc xy s e) = KArc"

text \<open>
  The parts of Pillow the script relies on and the repository does not contain:
  \<^item> \<open>covers s (x, y)\<close>: the rasteriser, whether drawing shape \<open>s\<close> touches pixel \<open>(x, y)\<close>;
  \<^item> \<open>resample f img sz (x, y)\<close>: the value of pixel \<open>(x, y)\<close> when \<open>img\<close> is resampled to
    size \<open>sz\<close> with filter \<open>f\<close>;
  \<^item> \<open>ico_scaled img sz\<close>: the frame the ICO writer derives from \<open>img\<close> for a requested
    size \<open>sz\<close> other than the size of \<open>img\<close>;
  \<^item> \<open>ico_container frames\<close>: the bytes of an ICO file holding the given frames;
  \<^item> \<open>png_encode img\<close>: the bytes of a PNG file of the image.
\<close>

record pillow =
  covers :: "shape \<Rightarrow> int \<times> int \<Rightarrow> bool"
  resample :: "resampling \<Rightarrow> image \<Rightarrow> nat \<times> nat \<Rightarrow> nat \<times> nat \<Rightarrow> colour"
  ico_scaled :: "image \<Rightarrow> nat \<times> nat \<Rightarrow> image"
  ico_container :: "image list \<Rightarrow> bytes"
  png_encode :: "image \<Rightarrow> bytes"

text \<open>\<^verbatim>\<open>Image.new(mode, size, color)\<close>: every pixel has the given colour.\<close>

definition Image_new :: "string \<Rightarrow> nat \<times> nat \<Rightarrow> colour \<Rightarrow> image" where
  "Image_new m sz c =
     (case sz of (w, h) \<Rightarrow> \<lparr>mode = m, size_wh = sz, pixels = replicate (w * h) c\<rparr>)"

text \<open>
  Drawing on an image through \<^verbatim>\<open>ImageDraw.Draw(img)\<close> changes \<open>img\<close> in place; the model
  passes the image through. A pixel the shape touches takes the fill colour as it is
  (\<^verbatim>\<open>ImageDraw\<close> does not blend and does not anti-alias), every other pixel is kept, and
  coordinates outside the image are clipped.
\<close>

definition paint :: "pillow \<Rightarrow> shape \<Rightarrow> colour \<Rightarrow> image \<Rightarrow> image" where
  "paint P s fill img =
     (case size_wh img of (w, h) \<Rightarrow>
        img\<lparr>pixels :=
          map (\<lambda>(i, c). if covers P s (int (i mod w), int (i div w)) then fill else c)
              (enumerate 0 (pixels img))\<rparr>)"

definition rectangle :: "pillow \<Rightarrow> int list \<Rightarrow> colour \<Rightarrow> image \<Rightarrow> image" where
  "rectangle P xy fill img = paint P (Rectangle xy) fill img"

definition ellipse :: "pillow \<Rightarrow> int list \<Rightarrow> colour \<Rightarrow> image \<Rightarrow> image" where
  "ellipse P xy fill img = paint P (Ellipse xy) fill img"

definition line :: "pillow \<Rightarrow> (int \<times> int) list \<Rightarrow> colour \<Rightarrow> image \<Rightarrow> image" where
  "line P xy fill img = paint P (Line xy) fill img"

definition arc :: "pillow \<Rightarrow> int list \<Rightarrow> int \<Rightarrow> int \<Rightarrow> colour \<Rightarrow> image \<Rightarrow> image" where
  "arc P xy start end fill img = paint P (Arc xy start end) fill img"

subsection \<open>\<^verbatim>\<open>create_favicon\<close>\<close>

definition create_favicon :: "pillow \<Rightarrow> image" where
  "create_favicon P =
     (let img = Image_new ''RGBA'' (16, 16) (45, 55, 72, 255);
          \<comment> \<open>radio body\<close>
          img = rectangle P [2, 6, 14, 14] (74, 85, 104, 255) img;
          \<comment> \<open>speaker\<close>
          img = ellipse P [4, 8, 8, 12] (26, 32, 44, 255) img;
          \<comment> \<open>knobs\<close>
          img = ellipse P [10, 7, 12, 9] (113, 128, 150, 255) img;
          img = ellipse P [12, 7, 14, 9] (113, 128, 150, 255) img;
          img = ellipse P [10, 11, 12, 13] (113, 128, 150, 255) img;
          img = ellipse P [12, 11, 14, 13] (113, 128, 150, 255) img;
          \<comment> \<open>antennas\<close>
          img = line P [(3, 6), (2, 2)] (113, 128, 150, 255) img;
          img = line P [(13, 6), (14, 2)] (113, 128, 150, 255) img;
          \<comment> \<open>signal waves\<close>
          img = arc P [1, 3, 5, 7] 0 90 (72, 187, 120, 255) img;
          img = arc P [11, 3, 15, 7] 90 180 (72, 187, 120, 255) img
      in img)"

text \<open>
  The same ten calls as data, in the order of the source: the shape of each call and
  its \<^verbatim>\<open>fill\<close> argument. \<open>canvas_fill\<close> is the colour given to \<^verbatim>\<open>Image.new\<close>.
\<close>

definition canvas_fill :: colour where
  "canvas_fill = (45, 55, 72, 255)"

definition favicon_primitives :: "(shape \<times> colour) list" where
  "favicon_primitives =
     [(Rectangle [2, 6, 14, 14], (74, 85, 104, 255)),
      (Ellipse [4, 8, 8, 12], (26, 32, 44, 255)),
      (Ellipse [10, 7, 12, 9], (113, 128, 150, 255)),
      (Ellipse [12, 7, 14, 9], (113, 128, 150, 255)),
      (Ellipse [10, 11, 12, 13], (113, 128, 150, 255)),
      (Ellipse [12, 11, 14, 13], (113, 128, 150, 255)),
      (Line [(3, 6), (2, 2)], (113, 128, 150, 255)),
      (Line [(13, 6), (14, 2)], (113, 128, 150, 255)),
      (Arc [1, 3, 5, 7] 0 90, (72, 187, 120, 255)),
      (Arc [11, 3, 15, 7] 90 180, (72, 187, 120, 255))]"

definition draw :: "pillow \<Rightarrow> image \<Rightarrow> shape \<times> colour \<Rightarrow> image" where
  "draw P img p = paint P (fst p) (snd p) img"

text \<open>The colours the program uses: the canvas fill and the fill of every call.\<close>

definition colours_used :: "colour list" where
  "colours_used = canvas_fill # map snd favicon_primitives"

subsection \<open>\<^verbatim>\<open>Image.resize\<close> and saving as ICO\<close>

text \<open>
  \<^verbatim>\<open>img.resize(size, resample)\<close> returns a new image of the requested size and leaves
  \<open>img\<close> as it is. Each pixel of the result comes from the resampling kernel.
\<close>

definition resize :: "pillow \<Rightarrow> image \<Rightarrow> nat \<times> nat \<Rightarrow> resampling \<Rightarrow> image" where
  "resize P img sz f =
     (case sz of (w, h) \<Rightarrow>
        \<lparr>mode = mode img, size_wh = sz,
         pixels = map (\<lambda>i. resample P f img sz (i mod w, i div w)) [0..<w * h]\<rparr>)"

text \<open>
  \<^verbatim>\<open>img.save(fp, format='ICO', sizes=...)\<close>. Pillow's ICO writer is given one image and a
  list of sizes. As its documentation says, it walks the sizes in sorted order without
  duplicates, ignores every size bigger than the image or bigger than 256, and writes
  one frame for each size that is left: the image itself when it has that size, a scaled
  copy otherwise.
\<close>

definition ico_frames :: "pillow \<Rightarrow> image \<Rightarrow> (nat \<times> nat) list \<Rightarrow> image list" where
  "ico_frames P im sizes =
     (case size_wh im of (width, height) \<Rightarrow>
        map (\<lambda>sz. if size_wh im = sz then im else ico_scaled P im sz)
          (filter (\<lambda>sz. fst sz \<le> width \<and> snd sz \<le> height \<and> fst sz \<le> 256 \<and> snd sz \<le> 256)
             (sort (remdups sizes))))"

definition save_ICO :: "pillow \<Rightarrow> image \<Rightarrow> (nat \<times> nat) list \<Rightarrow> bytes" where
  "save_ICO P im sizes = ico_container P (ico_frames P im sizes)"

subsection \<open>\<^verbatim>\<open>create_ico_data\<close>\<close>

definition create_ico_data :: "pillow \<Rightarrow> bytes" where
  "create_ico_data P =
     (let img16 = create_favicon P;
          img32 = resize P img16 (32, 32) LANCZOS;
          ico_data = save_ICO P img16 [(16, 16), (32, 32)]
      in ico_data)"

text \<open>The variant of \<^verbatim>\<open>create_ico_data\<close> with the line that computes \<^verbatim>\<open>img32\<close> removed.\<close>

definition create_ico_data_without_resize :: "pillow \<Rightarrow> bytes" where
  "create_ico_data_without_resize P =
     (let img16 = create_favicon P;
          ico_data = save_ICO P img16 [(16, 16), (32, 32)]
      in ico_data)"

subsection \<open>The script as a whole\<close>

text \<open>
  What a run depends on besides Pillow's algorithms: whether \<^verbatim>\<open>from PIL import ...\<close>
  succeeds, and for each path whether writing it fails. A failed write raises
  \<^verbatim>\<open>OSError\<close>; what it leaves on disk is not modelled (the file system is kept as it was).
\<close>

record env =
  pil_importable :: bool
  write_fails :: "string \<Rightarrow> bool"

datatype exn = ImportError | OSError

datatype status = Exited | Unhandled exn

record world =
  files :: "string \<rightharpoonup> bytes"
  stdout :: "string list"

definition print :: "string \<Rightarrow> world \<Rightarrow> world" where
  "print s w = w\<lparr>stdout := stdout w @ [s]\<rparr>"

text \<open>
  Writing a whole file: \<^verbatim>\<open>with open(path, 'wb') as f: f.write(data)\<close> and
  \<^verbatim>\<open>img.save(path, format='PNG')\<close> both replace the contents of \<open>path\<close>.
\<close>

definition write_file :: "env \<Rightarrow> string \<Rightarrow> bytes \<Rightarrow> world \<Rightarrow> (exn + unit) \<times> world" where
  "write_file E path bs w =
     (if write_fails E path then (Inl OSError, w)
      else (Inr (), w\<lparr>files := (files w)(path \<mapsto> bs)\<rparr>))"

definition save_PNG :: "pillow \<Rightarrow> env \<Rightarrow> image \<Rightarrow> string \<Rightarrow> world \<Rightarrow> (exn + unit) \<times> world" where
  "save_PNG P E img path w = write_file E path (png_encode P img) w"

text \<open>The body of the \<^verbatim>\<open>try\<close> block; the first exception ends it.\<close>

definition main_try :: "pillow \<Rightarrow> env \<Rightarrow> world \<Rightarrow> (exn + unit) \<times> world" where
  "main_try P E w =
     (let ico_data = create_ico_data P in
      case write_file E ''favicon.ico'' ico_data w of
        (Inl e, w1) \<Rightarrow> (Inl e, w1)
      | (Inr u, w1) \<Rightarrow>
          (let w2 = print ''favicon.ico created successfully!'' w1;
               img = create_favicon P in
           case save_PNG P E img ''favicon-16x16.png'' w2 of
             (Inl e, w3) \<Rightarrow> (Inl e, w3)
           | (Inr u, w3) \<Rightarrow>
               (case save_PNG P E (resize P img (32, 32) LANCZOS) ''favicon-32x32.png'' w3 of
                  (Inl e, w4) \<Rightarrow> (Inl e, w4)
                | (Inr u, w4) \<Rightarrow> (Inr (), print ''PNG versions created successfully!'' w4))))"

text \<open>
  Running the file as a script. Line 1, \<^verbatim>\<open>from PIL import Image, ImageDraw\<close>, is at module
  level, before and outside the \<^verbatim>\<open>try\<close> block: when it raises, nothing handles it. The
  handler \<^verbatim>\<open>except ImportError\<close> covers the body of the \<^verbatim>\<open>try\<close> block only; any other
  exception of the body leaves the script unhandled.
\<close>

definition run :: "pillow \<Rightarrow> env \<Rightarrow> world \<Rightarrow> status \<times> world" where
  "run P E w =
     (if \<not> pil_importable E then (Unhandled ImportError, w)
      else
        case main_try P E w of
          (Inr u, w') \<Rightarrow> (Exited, w')
        | (Inl ImportError, w') \<Rightarrow>
            (Exited,
             print ''Use the favicon-generator.html file to create favicon manually.''
               (print ''PIL/Pillow not available. Creating a simple HTML-based solution...'' w'))
        | (Inl e, w') \<Rightarrow> (Unhandled e, w'))"

text \<open>What the user sees of a run started with an empty console: how it ended and the lines printed.\<close>

definition console :: "pillow \<Rightarrow> env \<Rightarrow> (string \<rightharpoonup> bytes) \<Rightarrow> status \<times> string list" where
  "console P E fs =
     (case run P E \<lparr>files = fs, stdout = []\<rparr> of (st, w) \<Rightarrow> (st, stdout w))"

definition output_paths :: "string list" where
  "output_paths = [''favicon.ico'', ''favicon-16x16.png'', ''favicon-32x32.png'']"

text \<open>An image all of whose pixels are fully opaque.\<close>

definition opaque :: "image \<Rightarrow> bool" where
  "opaque img = list_all (\<lambda>c. alpha c = 255) (pixels img)"

subsection \<open>What the specification names\<close>

text \<open>
  The four palette colours the specification lists, identified by the comments of the
  source: background slate (the canvas fill), body gray (the radio body), dark speaker,
  light knob/accent (knobs and antennas).
\<close>

definition spec_palette :: "colour set" where
  "spec_palette =
     {(45, 55, 72, 255), (74, 85, 104, 255), (26, 32, 44, 255), (113, 128, 150, 255)}"

text \<open>
  The three console outcomes the specification allows: two success lines, two fallback
  lines, or an unhandled write failure.
\<close>

definition spec_console_outcome :: "status \<times> string list \<Rightarrow> bool" where
  "spec_console_outcome out =
     (out = (Exited, [''favicon.ico created successfully!'',
                      ''PNG versions created successfully!''])
      \<or> out = (Exited, [''PIL/Pillow not available. Creating a simple HTML-based solution...'',
                        ''Use the favicon-generator.html file to create favicon manually.''])
      \<or> out = (Unhandled OSError, []))"

subsection \<open>Concrete runs\<close>

text \<open>
  A small instance of the library parameters, to run the model on concrete inputs:
  rectangles and ellipses paint their bounding box, a line paints its end points, an arc
  paints nothing, resampling takes the nearest pixel, and the containers are reduced to
  their header bytes.
\<close>

fun box_covers :: "int list \<Rightarrow> int \<times> int \<Rightarrow> bool" where
  "box_covers [x0, y0, x1, y1] (x, y) = (x0 \<le> x \<and> x \<le> x1 \<and> y0 \<le> y \<and> y \<le> y1)"
| "box_covers xy p = False"

fun sample_covers :: "shape \<Rightarrow> int \<times> int \<Rightarrow> bool" where
  "sample_covers (Rectangle xy) p = box_covers xy p"
| "sample_covers (Ellipse xy) p = box_covers xy p"
| "sample_covers (Line xy) p = List.member xy p"
| "sample_covers (Arc xy s e) p = False"

definition nearest :: "image \<Rightarrow> nat \<times> nat \<Rightarrow> nat \<times> nat \<Rightarrow> colour" where
  "nearest img sz p =
     (case (size_wh img, sz, p) of ((sw, sh), (w, h), (x, y)) \<Rightarrow>
        (let i = (y * sh div h) * sw + x * sw div w
         in if w = 0 \<or> h = 0 \<or> length (pixels img) \<le> i then (0, 0, 0, 0) else pixels img ! i))"

definition sample_pillow :: pillow where
  "sample_pillow =
     \<lparr>covers = sample_covers,
      resample = (\<lambda>f. nearest),
      ico_scaled = (\<lambda>img sz. Image_new (mode img) sz (0, 0, 0, 0)),
      ico_container = (\<lambda>frames. [0, 0, 1, 0, of_nat (length frames), 0]),
      png_encode = (\<lambda>img. [137, 80, 78, 71, of_nat (fst (size_wh img)), of_nat (snd (size_wh img))])\<rparr>"

definition env_ok :: env where
  "env_ok = \<lparr>pil_importable = True, write_fails = (\<lambda>p. False)\<rparr>"

definition env_png_refused :: env where
  "env_png_refused = \<lparr>pil_importable = True, write_fails = (\<lambda>p. p = ''favicon-16x16.png'')\<rparr>"

definition env_no_pillow :: env where
  "env_no_pillow = \<lparr>pil_importable = False, write_fails = (\<lambda>p. False)\<rparr>"

definition world0 :: world where
  "world0 = \<lparr>files = Map.empty, stdout = []\<rparr>"

section \<open>Properties of the drawing\<close>

lemma paint_mode [simp]: "mode (paint P s c img) = mode img"
  by (simp add: paint_def split: prod.splits)

lemma paint_size [simp]: "size_wh (paint P s c img) = size_wh img"
  by (simp add: paint_def split: prod.splits)

lemma paint_length [simp]: "length (pixels (paint P s c img)) = length (pixels img)"
  by (simp add: paint_def split: prod.splits)

lemma paint_pixel:
  assumes "i < length (pixels img)"
  shows "pixels (paint P s c img) ! i =
           (if covers P s (int (i mod fst (size_wh img)), int (i div fst (size_wh img)))
            then c else pixels img ! i)"
  using assms by (simp add: paint_def nth_enumerate_eq split: prod.splits)

lemma paint_pixels_subset: "set (pixels (paint P s c img)) \<subseteq> insert c (set (pixels img))"
proof
  fix d
  assume "d \<in> set (pixels (paint P s c img))"
  then obtain i e where ie: "(i, e) \<in> set (enumerate 0 (pixels img))"
    and d: "d = c \<or> d = e"
    by (auto simp add: paint_def split: prod.splits if_splits)
  from ie have "e \<in> set (pixels img)"
    by (auto simp add: in_set_enumerate_eq)
  with d show "d \<in> insert c (set (pixels img))"
    by auto
qed

lemma paint_opaque:
  assumes "alpha c = 255" and "opaque img"
  shows "opaque (paint P s c img)"
  using assms paint_pixels_subset [of P s c img]
  by (auto simp add: opaque_def list_all_iff)

lemma create_favicon_replay:
  "create_favicon P = foldl (draw P) (Image_new ''RGBA'' (16, 16) canvas_fill) favicon_primitives"
  by (simp add: create_favicon_def favicon_primitives_def canvas_fill_def draw_def
      rectangle_def ellipse_def line_def arc_def)

lemma foldl_draw_mode: "mode (foldl (draw P) img ps) = mode img"
  by (induction ps arbitrary: img) (simp_all add: draw_def)

lemma foldl_draw_size: "size_wh (foldl (draw P) img ps) = size_wh img"
  by (induction ps arbitrary: img) (simp_all add: draw_def)

lemma foldl_draw_length: "length (pixels (foldl (draw P) img ps)) = length (pixels img)"
  by (induction ps arbitrary: img) (simp_all add: draw_def)

lemma foldl_draw_pixels_subset:
  "set (pixels (foldl (draw P) img ps)) \<subseteq> set (pixels img) \<union> snd ` set ps"
proof (induction ps arbitrary: img)
  case Nil
  show ?case by simp
next
  case (Cons p ps)
  have "set (pixels (foldl (draw P) (draw P img p) ps))
          \<subseteq> set (pixels (draw P img p)) \<union> snd ` set ps"
    by (rule Cons.IH)
  moreover have "set (pixels (draw P img p)) \<subseteq> insert (snd p) (set (pixels img))"
    unfolding draw_def by (rule paint_pixels_subset)
  ultimately show ?case by auto
qed

lemma foldl_draw_opaque:
  assumes "list_all (\<lambda>p. alpha (snd p) = 255) ps" and "opaque img"
  shows "opaque (foldl (draw P) img ps)"
  using assms
proof (induction ps arbitrary: img)
  case Nil
  then show ?case by simp
next
  case (Cons p ps)
  from Cons.prems have "opaque (draw P img p)"
    by (simp add: draw_def paint_opaque)
  with Cons show ?case by simp
qed

lemma Image_new_pixels: "pixels (Image_new m (w, h) c) = replicate (w * h) c"
  by (simp add: Image_new_def)

lemma Image_new_opaque: "alpha c = 255 \<Longrightarrow> opaque (Image_new m sz c)"
  by (cases sz) (simp add: Image_new_def opaque_def list_all_iff)

lemma favicon_fills_opaque: "list_all (\<lambda>p. alpha (snd p) = 255) favicon_primitives"
  by (simp add: favicon_primitives_def alpha_def)

lemma create_favicon_opaque: "opaque (create_favicon P)"
  unfolding create_favicon_replay
  by (rule foldl_draw_opaque [OF favicon_fills_opaque])
     (simp add: Image_new_opaque canvas_fill_def alpha_def)

lemma create_favicon_mode: "mode (create_favicon P) = ''RGBA''"
  by (simp add: create_favicon_replay foldl_draw_mode Image_new_def)

lemma create_favicon_size: "size_wh (create_favicon P) = (16, 16)"
  by (simp add: create_favicon_replay foldl_draw_size Image_new_def)

lemma create_favicon_length: "length (pixels (create_favicon P)) = 256"
  by (simp add: create_favicon_replay foldl_draw_length Image_new_def)

section \<open>Properties of the encoding\<close>

lemma resize_size: "size_wh (resize P img sz f) = sz"
  by (simp add: resize_def split: prod.splits)

lemma resize_pixels:
  "pixels (resize P img (w, h) f) = map (\<lambda>i. resample P f img (w, h) (i mod w, i div w)) [0..<w * h]"
  by (simp add: resize_def)

lemma ico_frames_favicon:
  "ico_frames P (create_favicon P) [(16, 16), (32, 32)] = [create_favicon P]"
  by (simp add: ico_frames_def create_favicon_size less_eq_prod_def)

lemma create_ico_data_eq: "create_ico_data P = ico_container P [create_favicon P]"
  by (simp add: create_ico_data_def save_ICO_def ico_frames_favicon)

lemma paint_resample: "paint (P\<lparr>resample := k\<rparr>) s c img = paint P s c img"
  by (simp add: paint_def)

lemma create_favicon_resample: "create_favicon (P\<lparr>resample := k\<rparr>) = create_favicon P"
  by (simp only: create_favicon_def rectangle_def ellipse_def line_def arc_def paint_resample)

section \<open>Properties of a run\<close>

lemma write_ok:
  "\<not> write_fails E p \<Longrightarrow> write_file E p bs w = (Inr (), w\<lparr>files := (files w)(p \<mapsto> bs)\<rparr>)"
  by (simp add: write_file_def)

lemma write_bad: "write_fails E p \<Longrightarrow> write_file E p bs w = (Inl OSError, w)"
  by (simp add: write_file_def)

lemma main_try_ico_fails:
  "write_fails E ''favicon.ico'' \<Longrightarrow> main_try P E w = (Inl OSError, w)"
  unfolding main_try_def Let_def save_PNG_def by (simp add: write_bad)

lemma main_try_png16_fails:
  "\<not> write_fails E ''favicon.ico'' \<Longrightarrow> write_fails E ''favicon-16x16.png'' \<Longrightarrow>
   main_try P E w =
     (Inl OSError,
      \<lparr>files = (files w)(''favicon.ico'' \<mapsto> create_ico_data P),
       stdout = stdout w @ [''favicon.ico created successfully!'']\<rparr>)"
  unfolding main_try_def Let_def save_PNG_def by (simp add: write_bad write_ok print_def)

lemma main_try_png32_fails:
  "\<not> write_fails E ''favicon.ico'' \<Longrightarrow> \<not> write_fails E ''favicon-16x16.png'' \<Longrightarrow>
   write_fails E ''favicon-32x32.png'' \<Longrightarrow>
   main_try P E w =
     (Inl OSError,
      \<lparr>files = (files w)(''favicon.ico'' \<mapsto> create_ico_data P,
                           ''favicon-16x16.png'' \<mapsto> png_encode P (create_favicon P)),
       stdout = stdout w @ [''favicon.ico created successfully!'']\<rparr>)"
  unfolding main_try_def Let_def save_PNG_def by (simp add: write_bad write_ok print_def)

lemma main_try_ok:
  "\<not> write_fails E ''favicon.ico'' \<Longrightarrow> \<not> write_fails E ''favicon-16x16.png'' \<Longrightarrow>
   \<not> write_fails E ''favicon-32x32.png'' \<Longrightarrow>
   main_try P E w =
     (Inr (),
      \<lparr>files = (files w)(''favicon.ico'' \<mapsto> create_ico_data P,
                           ''favicon-16x16.png'' \<mapsto> png_encode P (create_favicon P),
                           ''favicon-32x32.png'' \<mapsto>
                              png_encode P (resize P (create_favicon P) (32, 32) LANCZOS)),
       stdout = stdout w @ [''favicon.ico created successfully!'',
                            ''PNG versions created successfully!'']\<rparr>)"
  unfolding main_try_def Let_def save_PNG_def by (simp add: write_bad write_ok print_def)

lemma run_no_pil: "\<not> pil_importable E \<Longrightarrow> run P E w = (Unhandled ImportError, w)"
  by (simp add: run_def)

lemma run_ico_fails:
  "pil_importable E \<Longrightarrow> write_fails E ''favicon.ico'' \<Longrightarrow> run P E w = (Unhandled OSError, w)"
  by (simp add: run_def main_try_ico_fails)

lemma run_png16_fails:
  "pil_importable E \<Longrightarrow> \<not> write_fails E ''favicon.ico'' \<Longrightarrow> write_fails E ''favicon-16x16.png'' \<Longrightarrow>
   run P E w =
     (Unhandled OSError,
      \<lparr>files = (files w)(''favicon.ico'' \<mapsto> create_ico_data P),
       stdout = stdout w @ [''favicon.ico created successfully!'']\<rparr>)"
  by (simp add: run_def main_try_png16_fails)

lemma run_png32_fails:
  "pil_importable E \<Longrightarrow> \<not> write_fails E ''favicon.ico'' \<Longrightarrow> \<not> write_fails E ''favicon-16x16.png'' \<Longrightarrow>
   write_fails E ''favicon-32x32.png'' \<Longrightarrow>
   run P E w =
     (Unhandled OSError,
      \<lparr>files = (files w)(''favicon.ico'' \<mapsto> create_ico_data P,
                           ''favicon-16x16.png'' \<mapsto> png_encode P (create_favicon P)),
       stdout = stdout w @ [''favicon.ico created successfully!'']\<rparr>)"
  by (simp add: run_def main_try_png32_fails)

lemma run_ok:
  "pil_importable E \<Longrightarrow> \<not> write_fails E ''favicon.ico'' \<Longrightarrow> \<not> write_fails E ''favicon-16x16.png'' \<Longrightarrow>
   \<not> write_fails E ''favicon-32x32.png'' \<Longrightarrow>
   run P E w =
     (Exited,
      \<lparr>files = (files w)(''favicon.ico'' \<mapsto> create_ico_data P,
                           ''favicon-16x16.png'' \<mapsto> png_encode P (create_favicon P),
                           ''favicon-32x32.png'' \<mapsto>
                              png_encode P (resize P (create_favicon P) (32, 32) LANCZOS)),
       stdout = stdout w @ [''favicon.ico created successfully!'',
                            ''PNG versions created successfully!'']\<rparr>)"
  by (simp add: run_def main_try_ok)

lemma run_exited_iff:
  "fst (run P E w) = Exited \<longleftrightarrow>
     pil_importable E \<and> \<not> write_fails E ''favicon.ico'' \<and> \<not> write_fails E ''favicon-16x16.png''
     \<and> \<not> write_fails E ''favicon-32x32.png''"
proof (cases "pil_importable E")
  case False
  then show ?thesis by (simp add: run_no_pil)
next
  case pil: True
  show ?thesis
  proof (cases "write_fails E ''favicon.ico''")
    case True
    with pil show ?thesis by (simp add: run_ico_fails)
  next
    case ico: False
    show ?thesis
    proof (cases "write_fails E ''favicon-16x16.png''")
      case True
      with pil ico show ?thesis by (simp add: run_png16_fails)
    next
      case p16: False
      show ?thesis
      proof (cases "write_fails E ''favicon-32x32.png''")
        case True
        with pil ico p16 show ?thesis by (simp add: run_png32_fails)
      next
        case False
        with pil ico p16 show ?thesis by (simp add: run_ok)
      qed
    qed
  qed
qed

section \<open>The claims\<close>

subsection \<open>Runs without Pillow\<close>

text \<open>
  C1. The claim: in every run in which Pillow cannot be loaded the process does not
  crash, writes no file and prints the two fallback lines. The script does not do that:
  for every environment in which the import of line 1 fails, the run ends with an
  unhandled \<^verbatim>\<open>ImportError\<close>, the file system is as it was (no file is written) and
  nothing has been printed. The \<^verbatim>\<open>except ImportError\<close> handler that prints the fallback
  lines is never reached, because the import is outside the \<^verbatim>\<open>try\<close> block.
\<close>

theorem run_without_pillow:
  "run P (E\<lparr>pil_importable := False\<rparr>) w = (Unhandled ImportError, w)
   \<and> console P (E\<lparr>pil_importable := False\<rparr>) fs = (Unhandled ImportError, [])"
  by (simp add: run_no_pil console_def)

subsection \<open>The ICO data\<close>

text \<open>
  C2. The claim: the ICO step encodes the 16x16 base canvas and the 32x32 derived canvas
  into one container with exactly two frames, 16x16 and 32x32. The script hands only the
  16x16 image to the ICO writer, with the sizes 16x16 and 32x32; the writer ignores the
  size 32x32, which is bigger than the image, so the frames it writes are exactly one,
  the 16x16 base canvas, and the returned bytes are the container of that single frame.
\<close>

theorem ico_holds_one_frame:
  "ico_frames P (create_favicon P) [(16, 16), (32, 32)] = [create_favicon P]
   \<and> map size_wh (ico_frames P (create_favicon P) [(16, 16), (32, 32)]) = [(16, 16)]
   \<and> create_ico_data P = ico_container P [create_favicon P]"
  by (simp add: ico_frames_favicon create_favicon_size create_ico_data_eq)

text \<open>
  C10. The bytes \<^verbatim>\<open>create_ico_data\<close> returns are a function of the 16x16 base image
  alone: the variant without the resize step returns the same bytes, the bytes are what
  the ICO writer makes of the base image and the two requested sizes, and replacing the
  resampling kernel by any other one does not change them.
\<close>

theorem create_ico_data_ignores_resize:
  "create_ico_data P = create_ico_data_without_resize P
   \<and> create_ico_data P = save_ICO P (create_favicon P) [(16, 16), (32, 32)]
   \<and> create_ico_data (P\<lparr>resample := k\<rparr>) = create_ico_data P"
  by (simp add: create_ico_data_eq create_favicon_resample create_ico_data_without_resize_def
      save_ICO_def ico_frames_favicon)

subsection \<open>The drawing\<close>

text \<open>
  C3, as stated, fails: the claim counts four colours, but the two arcs (the ninth and
  tenth call) are drawn in a green that is none of the four the specification names, and
  the program uses five different colours.
\<close>

theorem palette_counterexample:
  "snd (favicon_primitives ! 8) = (72, 187, 120, 255)
   \<and> snd (favicon_primitives ! 8) \<notin> spec_palette
   \<and> card (set colours_used) = 5"
  by (simp add: favicon_primitives_def spec_palette_def colours_used_def canvas_fill_def)

text \<open>
  C3, amended. The palette of the program consists of exactly five fixed RGBA constants:
  background slate, body gray, dark speaker, light knob and antenna, and the green of the
  signal waves. The canvas fill and the fill of every drawing call is one of the five,
  and so is every pixel of the finished icon, whatever the rasteriser does.
\<close>

theorem palette_five:
  "set colours_used =
     {(45, 55, 72, 255), (74, 85, 104, 255), (26, 32, 44, 255), (113, 128, 150, 255),
      (72, 187, 120, 255)}
   \<and> card (set colours_used) = 5
   \<and> set (pixels (create_favicon P)) \<subseteq> set colours_used"
proof -
  have "set (pixels (create_favicon P))
          \<subseteq> set (pixels (Image_new ''RGBA'' (16, 16) canvas_fill)) \<union> snd ` set favicon_primitives"
    unfolding create_favicon_replay by (rule foldl_draw_pixels_subset)
  then have "set (pixels (create_favicon P)) \<subseteq> set colours_used"
    by (auto simp add: colours_used_def Image_new_def)
  then show ?thesis
    by (simp add: favicon_primitives_def colours_used_def canvas_fill_def insert_commute)
qed

text \<open>
  C4. \<^verbatim>\<open>create_favicon\<close> takes no input. It allocates a 16x16 RGBA canvas filled with the
  background colour and then applies, in this order, one rectangle, one ellipse, four
  more ellipses, two lines and two arcs, each with the literal coordinates and colour of
  \<open>favicon_primitives\<close>. The result is an RGBA image of size 16x16 with a value for each
  of its 16 * 16 pixels.
\<close>

theorem create_favicon_sequence:
  "create_favicon P =
     foldl (draw P) (Image_new ''RGBA'' (16, 16) canvas_fill) favicon_primitives
   \<and> pixels (Image_new ''RGBA'' (16, 16) canvas_fill) = replicate 256 canvas_fill
   \<and> map (kind_of \<circ> fst) favicon_primitives =
       [KRectangle, KEllipse, KEllipse, KEllipse, KEllipse, KEllipse, KLine, KLine, KArc, KArc]
   \<and> mode (create_favicon P) = ''RGBA''
   \<and> size_wh (create_favicon P) = (16, 16)
   \<and> length (pixels (create_favicon P)) = 16 * 16"
proof (intro conjI)
  show "create_favicon P =
          foldl (draw P) (Image_new ''RGBA'' (16, 16) canvas_fill) favicon_primitives"
    by (rule create_favicon_replay)
  show "pixels (Image_new ''RGBA'' (16, 16) canvas_fill) = replicate 256 canvas_fill"
    by (simp add: Image_new_def)
  show "map (kind_of \<circ> fst) favicon_primitives =
          [KRectangle, KEllipse, KEllipse, KEllipse, KEllipse, KEllipse, KLine, KLine, KArc, KArc]"
    by (simp add: favicon_primitives_def)
  show "mode (create_favicon P) = ''RGBA''"
    by (rule create_favicon_mode)
  show "size_wh (create_favicon P) = (16, 16)"
    by (rule create_favicon_size)
  show "length (pixels (create_favicon P)) = 16 * 16"
    by (simp add: create_favicon_length)
qed

text \<open>
  C9. Every pixel of the base canvas is fully opaque: the canvas fill and the fill colour
  of every drawing call have alpha 255, the canvas is fully opaque after each step of the
  construction, and each of the 256 pixels of the finished canvas has alpha 255.
\<close>

theorem every_pixel_opaque:
  "alpha canvas_fill = 255
   \<and> (\<forall>p \<in> set favicon_primitives. alpha (snd p) = 255)
   \<and> (\<forall>n. opaque (foldl (draw P) (Image_new ''RGBA'' (16, 16) canvas_fill)
                     (take n favicon_primitives)))
   \<and> length (pixels (create_favicon P)) = 256
   \<and> (\<forall>i < 256. alpha (pixels (create_favicon P) ! i) = 255)"
proof (intro conjI allI impI)
  show "alpha canvas_fill = 255"
    by (simp add: canvas_fill_def alpha_def)
  show fills: "\<forall>p \<in> set favicon_primitives. alpha (snd p) = 255"
    using favicon_fills_opaque by (simp add: list_all_iff)
  show "opaque (foldl (draw P) (Image_new ''RGBA'' (16, 16) canvas_fill)
                  (take n favicon_primitives))" for n
  proof (rule foldl_draw_opaque)
    show "list_all (\<lambda>p. alpha (snd p) = 255) (take n favicon_primitives)"
      using fills by (auto simp add: list_all_iff dest: in_set_takeD)
    show "opaque (Image_new ''RGBA'' (16, 16) canvas_fill)"
      by (simp add: Image_new_opaque canvas_fill_def alpha_def)
  qed
  show "length (pixels (create_favicon P)) = 256"
    by (rule create_favicon_length)
  show "alpha (pixels (create_favicon P) ! i) = 255" if "i < 256" for i
    using create_favicon_opaque [of P] that
    by (simp add: opaque_def list_all_length create_favicon_length)
qed

theorem every_pixel_opaque_witness:
  "favicon_primitives ! 8 \<in> set favicon_primitives
   \<and> alpha (snd (favicon_primitives ! 8)) = 255
   \<and> (0::nat) < 256
   \<and> alpha (pixels (create_favicon sample_pillow) ! 0) = 255"
proof -
  have m: "favicon_primitives ! 8 \<in> set favicon_primitives"
    by (simp add: favicon_primitives_def)
  from every_pixel_opaque [of sample_pillow] m show ?thesis
    by simp
qed

subsection \<open>The files of a run\<close>

text \<open>
  C5. In every run that completes, the file \<^verbatim>\<open>favicon-32x32.png\<close> holds the PNG encoding
  of the image obtained by resizing the 16x16 base canvas to (32, 32) with the LANCZOS
  filter. That image has size exactly 32x32 and each of its 32 * 32 pixels is the
  resampling kernel applied to the base canvas; nothing is drawn on it.
\<close>

theorem png32_is_resampled_base:
  assumes "fst (run P E w) = Exited"
  shows "files (snd (run P E w)) ''favicon-32x32.png'' =
           Some (png_encode P (resize P (create_favicon P) (32, 32) LANCZOS))
         \<and> size_wh (resize P (create_favicon P) (32, 32) LANCZOS) = (32, 32)
         \<and> pixels (resize P (create_favicon P) (32, 32) LANCZOS) =
             map (\<lambda>i. resample P LANCZOS (create_favicon P) (32, 32) (i mod 32, i div 32))
               [0..<32 * 32]"
proof -
  from assms have "pil_importable E" "\<not> write_fails E ''favicon.ico''"
    "\<not> write_fails E ''favicon-16x16.png''" "\<not> write_fails E ''favicon-32x32.png''"
    by (simp_all add: run_exited_iff)
  then have "files (snd (run P E w)) ''favicon-32x32.png'' =
      Some (png_encode P (resize P (create_favicon P) (32, 32) LANCZOS))"
    by (simp add: run_ok)
  then show ?thesis
    by (simp add: resize_size resize_pixels)
qed

theorem png32_is_resampled_base_witness:
  "fst (run sample_pillow env_ok world0) = Exited
   \<and> files (snd (run sample_pillow env_ok world0)) ''favicon-32x32.png'' =
       Some [137, 80, 78, 71, 32, 32]
   \<and> size_wh (resize sample_pillow (create_favicon sample_pillow) (32, 32) LANCZOS) = (32, 32)"
proof -
  have h: "fst (run sample_pillow env_ok world0) = Exited"
    by (simp add: run_exited_iff env_ok_def)
  have "png_encode sample_pillow (resize sample_pillow (create_favicon sample_pillow) (32, 32) LANCZOS)
          = [137, 80, 78, 71, 32, 32]"
    by (simp add: sample_pillow_def resize_size)
  with h png32_is_resampled_base [OF h] show ?thesis
    by simp
qed

text \<open>
  C6. The pipeline is deterministic. When a run completes, running the script again in
  the same environment on the files the first run left completes too and leaves the same
  files; the three output files are the same from whatever file system the run starts,
  and their bytes are determined by the images alone (the library's encoders are functions
  of the image; the script reads no clock and no random source).
\<close>

theorem run_twice_same_files:
  assumes "fst (run P E w) = Exited"
  shows "fst (run P E (snd (run P E w))) = Exited
         \<and> files (snd (run P E (snd (run P E w)))) = files (snd (run P E w))
         \<and> map (files (snd (run P E w'))) output_paths = map (files (snd (run P E w))) output_paths
         \<and> map (files (snd (run P E w))) output_paths =
             [Some (create_ico_data P), Some (png_encode P (create_favicon P)),
              Some (png_encode P (resize P (create_favicon P) (32, 32) LANCZOS))]"
proof -
  from assms have ok: "pil_importable E" "\<not> write_fails E ''favicon.ico''"
    "\<not> write_fails E ''favicon-16x16.png''" "\<not> write_fails E ''favicon-32x32.png''"
    by (simp_all add: run_exited_iff)
  show ?thesis
    by (simp add: run_ok [OF ok] output_paths_def)
qed

theorem run_twice_same_files_witness:
  "fst (run sample_pillow env_ok world0) = Exited
   \<and> files (snd (run sample_pillow env_ok (snd (run sample_pillow env_ok world0)))) =
       files (snd (run sample_pillow env_ok world0))"
proof -
  have h: "fst (run sample_pillow env_ok world0) = Exited"
    by (simp add: run_exited_iff env_ok_def)
  with run_twice_same_files [OF h] show ?thesis
    by simp
qed

text \<open>
  C7. In every run in which Pillow is imported and the write of one of the three output
  files fails, the \<^verbatim>\<open>try\<close> block ends with \<^verbatim>\<open>OSError\<close>, the handler does not catch it, and
  the script ends with that error unhandled. The fallback lines are not printed: the
  console has at most the first success line added.
\<close>

theorem write_failure_propagates:
  assumes "pil_importable E" and "\<exists>p \<in> set output_paths. write_fails E p"
  shows "fst (main_try P E w) = Inl OSError
         \<and> fst (run P E w) = Unhandled OSError
         \<and> (stdout (snd (run P E w)) = stdout w
            \<or> stdout (snd (run P E w)) = stdout w @ [''favicon.ico created successfully!''])"
proof (cases "write_fails E ''favicon.ico''")
  case True
  with assms(1) show ?thesis
    by (simp add: run_ico_fails main_try_ico_fails)
next
  case ico: False
  show ?thesis
  proof (cases "write_fails E ''favicon-16x16.png''")
    case True
    with assms(1) ico show ?thesis
      by (simp add: run_png16_fails main_try_png16_fails)
  next
    case p16: False
    with assms(2) ico have "write_fails E ''favicon-32x32.png''"
      by (auto simp add: output_paths_def)
    with assms(1) ico p16 show ?thesis
      by (simp add: run_png32_fails main_try_png32_fails)
  qed
qed

theorem write_failure_propagates_witness:
  "pil_importable env_png_refused
   \<and> write_fails env_png_refused ''favicon-16x16.png''
   \<and> fst (run sample_pillow env_png_refused world0) = Unhandled OSError"
proof -
  have h1: "pil_importable env_png_refused"
    by (simp add: env_png_refused_def)
  have h2: "\<exists>p \<in> set output_paths. write_fails env_png_refused p"
    by (simp add: env_png_refused_def output_paths_def)
  from write_failure_propagates [OF h1 h2, of sample_pillow world0] h1 show ?thesis
    by (simp add: env_png_refused_def)
qed

text \<open>
  C8, as stated, fails: when the ICO file is written and the write of the 16x16 PNG
  fails, the console shows the first success line followed by the unhandled error, which
  is none of the three outcomes of the claim. Neither is the outcome of a run without
  Pillow: an unhandled \<^verbatim>\<open>ImportError\<close> and no line.
\<close>

theorem console_outcome_counterexample:
  "console sample_pillow env_png_refused Map.empty =
     (Unhandled OSError, [''favicon.ico created successfully!''])
   \<and> \<not> spec_console_outcome (console sample_pillow env_png_refused Map.empty)
   \<and> console sample_pillow env_no_pillow Map.empty = (Unhandled ImportError, [])
   \<and> \<not> spec_console_outcome (console sample_pillow env_no_pillow Map.empty)"
proof -
  have "console sample_pillow env_png_refused Map.empty =
     (Unhandled OSError, [''favicon.ico created successfully!''])"
    by (simp add: console_def run_png16_fails env_png_refused_def)
  moreover have "console sample_pillow env_no_pillow Map.empty = (Unhandled ImportError, [])"
    by (simp add: console_def run_no_pil env_no_pillow_def)
  ultimately show ?thesis
    by (simp add: spec_console_outcome_def)
qed

text \<open>
  C8, amended. In every run in which Pillow is imported, the console outcome is exactly
  one of: no line and an unhandled write error (the ICO write failed); the first success
  line followed by an unhandled write error (a PNG write failed); the two success lines
  and a normal exit (all three writes succeeded).
\<close>

theorem console_outcomes:
  assumes "pil_importable E"
  shows "console P E fs =
           (if write_fails E ''favicon.ico'' then (Unhandled OSError, [])
            else if write_fails E ''favicon-16x16.png'' \<or> write_fails E ''favicon-32x32.png''
            then (Unhandled OSError, [''favicon.ico created successfully!''])
            else (Exited, [''favicon.ico created successfully!'',
                           ''PNG versions created successfully!'']))"
proof (cases "write_fails E ''favicon.ico''")
  case True
  with assms show ?thesis
    by (simp add: console_def run_ico_fails)
next
  case ico: False
  show ?thesis
  proof (cases "write_fails E ''favicon-16x16.png''")
    case True
    with assms ico show ?thesis
      by (simp add: console_def run_png16_fails)
  next
    case p16: False
    show ?thesis
    proof (cases "write_fails E ''favicon-32x32.png''")
      case True
      with assms ico p16 show ?thesis
        by (simp add: console_def run_png32_fails)
    next
      case False
      with assms ico p16 show ?thesis
        by (simp add: console_def run_ok)
    qed
  qed
qed

theorem console_outcomes_witness:
  "pil_importable env_ok
   \<and> console sample_pillow env_ok Map.empty =
       (Exited, [''favicon.ico created successfully!'', ''PNG versions created successfully!''])"
proof -
  have h: "pil_importable env_ok"
    by (simp add: env_ok_def)
  from console_outcomes [OF h, of sample_pillow Map.empty] h show ?thesis
    by (simp add: env_ok_def)
qed

end
